theory Spec2Isabelle
  imports Complex_Main "HOL-Library.Sublist"
begin

section \<open>Python values, exceptions and dates\<close>

text \<open>
  The values that \<^verbatim>\<open>json.load\<close> returns and \<^verbatim>\<open>json.dump\<close> accepts. A Python
  \<^verbatim>\<open>float\<close> is modelled by a real number: rounding, infinities and NaN are outside the
  model. A \<^verbatim>\<open>dict\<close> is an association list in insertion order; a list that stands for
  a dict has pairwise different keys.
\<close>

datatype pyval =
    PNone
  | PBool bool
  | PInt int
  | PFloat real
  | PStr string
  | PList "pyval list"
  | PDict "(string \<times> pyval) list"

text \<open>
  The exceptions of \<^verbatim>\<open>exceptions/custom_exceptions.py\<close> and the built-in ones the code
  can meet. All of them are subclasses of \<^verbatim>\<open>Exception\<close>. A built-in exception carries
  its message (where the interpreter raises it, the message is abbreviated);
  \<^verbatim>\<open>InvalidProductDataError\<close> carries the message it was constructed with (the prefix
  is added by \<open>exn_str\<close>, as its \<^verbatim>\<open>__init__\<close> does).
\<close>

datatype exn =
    ValueError string
  | TypeError string
  | AttributeError string
  | OSError string
  | JSONDecodeError string
  | OtherException string
  | InsufficientStockError string int int
  | DuplicateProductError string
  | ProductNotFoundError string
  | InvalidProductDataError string
  | InvalidProductTypeError string

text \<open>A \<^verbatim>\<open>datetime.date\<close>: Python compares dates by year, then month, then day.\<close>

record date =
  year :: nat
  month :: nat
  day :: nat

definition date_gt :: "date \<Rightarrow> date \<Rightarrow> bool" where
  "date_gt a b \<longleftrightarrow>
     year b < year a \<or>
     (year a = year b \<and> (month b < month a \<or> (month a = month b \<and> day b < day a)))"

subsection \<open>Decimal text\<close>

definition digit_char :: "nat \<Rightarrow> char" where
  "digit_char n = ''0123456789'' ! (n mod 10)"

fun dec :: "nat \<Rightarrow> string" where
  "dec n = (if n < 10 then [digit_char n] else dec (n div 10) @ [digit_char (n mod 10)])"

declare dec.simps [simp del]

definition zfill :: "nat \<Rightarrow> string \<Rightarrow> string" where
  "zfill w s = replicate (w - length s) (CHR ''0'') @ s"

text \<open>\<^verbatim>\<open>str(i)\<close> for an \<^verbatim>\<open>int\<close>.\<close>

definition str_int :: "int \<Rightarrow> string" where
  "str_int i = (if i < 0 then CHR ''-'' # dec (nat (- i)) else dec (nat i))"

text \<open>\<^verbatim>\<open>date.isoformat()\<close>: \<^verbatim>\<open>'%04d-%02d-%02d'\<close>.\<close>

definition isoformat :: "date \<Rightarrow> string" where
  "isoformat d =
     zfill 4 (dec (year d)) @ ''-'' @ zfill 2 (dec (month d)) @ ''-'' @ zfill 2 (dec (day d))"

subsection \<open>What the interpreter and the libraries supply\<close>

text \<open>
  Functions the repository calls and does not define are parameters of the model:
  \<^verbatim>\<open>float(s)\<close> and \<^verbatim>\<open>int(s)\<close> on a string, \<^verbatim>\<open>dateutil.parser.parse(v).date()\<close> on any
  value (each may raise), and the text \<^verbatim>\<open>str(v)\<close> of a float, a list or a dict.
\<close>

record runtime =
  float_of_str :: "string \<Rightarrow> exn + real"
  int_of_str :: "string \<Rightarrow> exn + int"
  date_parse :: "pyval \<Rightarrow> exn + date"
  str_other :: "pyval \<Rightarrow> string"

text \<open>\<^verbatim>\<open>float(v)\<close>.\<close>

fun py_float :: "runtime \<Rightarrow> pyval \<Rightarrow> exn + real" where
  "py_float rt (PFloat r) = Inr r"
| "py_float rt (PInt i) = Inr (of_int i)"
| "py_float rt (PBool b) = Inr (if b then 1 else 0)"
| "py_float rt (PStr s) = float_of_str rt s"
| "py_float rt v = Inl (TypeError ''float() argument must be a string or a real number'')"

text \<open>\<^verbatim>\<open>int(v)\<close>: a float is truncated towards zero.\<close>

fun py_int :: "runtime \<Rightarrow> pyval \<Rightarrow> exn + int" where
  "py_int rt (PInt i) = Inr i"
| "py_int rt (PBool b) = Inr (if b then 1 else 0)"
| "py_int rt (PFloat r) = Inr (if r < 0 then \<lceil>r\<rceil> else \<lfloor>r\<rfloor>)"
| "py_int rt (PStr s) = int_of_str rt s"
| "py_int rt v =
     Inl (TypeError ''int() argument must be a string, a bytes-like object or a real number'')"

text \<open>\<^verbatim>\<open>str(v)\<close>, as an f-string formats a value.\<close>

fun py_str :: "runtime \<Rightarrow> pyval \<Rightarrow> string" where
  "py_str rt (PStr s) = s"
| "py_str rt PNone = ''None''"
| "py_str rt (PBool b) = (if b then ''True'' else ''False'')"
| "py_str rt (PInt i) = str_int i"
| "py_str rt v = str_other rt v"

text \<open>\<^verbatim>\<open>str(e)\<close> for an exception, from the \<^verbatim>\<open>__init__\<close> methods of the custom ones.\<close>

fun exn_str :: "exn \<Rightarrow> string" where
  "exn_str (ValueError m) = m"
| "exn_str (TypeError m) = m"
| "exn_str (AttributeError m) = m"
| "exn_str (OSError m) = m"
| "exn_str (JSONDecodeError m) = m"
| "exn_str (OtherException m) = m"
| "exn_str (InsufficientStockError pid requested available) =
     ''Insufficient stock for product '' @ pid @ ''. Requested: '' @ str_int requested
       @ '', Available: '' @ str_int available"
| "exn_str (DuplicateProductError pid) =
     ''Product with ID '' @ pid @ '' already exists in inventory''"
| "exn_str (ProductNotFoundError pid) =
     ''Product with ID '' @ pid @ '' not found in inventory''"
| "exn_str (InvalidProductDataError m) = ''Invalid product data: '' @ m"
| "exn_str (InvalidProductTypeError t) = ''Invalid product type: '' @ t"

section \<open>Products (models/product.py and its three subclasses)\<close>

text \<open>
  The fields every product has are a record; what the subclass adds is the \<open>kind\<close>.
  The field types are those of the constructors' annotations.
\<close>

datatype variant =
    Electronics (warranty_years: int) (brand: string)
  | Grocery (expiry_date: date)
  | Clothing (clothing_size: string) (material: string)

record product =
  product_id :: string
  name :: string
  price :: real
  quantity_in_stock :: int
  kind :: variant

subsection \<open>Constructors\<close>

text \<open>
  \<^verbatim>\<open>Product.__init__\<close> stores \<^verbatim>\<open>float(price)\<close> and \<^verbatim>\<open>int(quantity_in_stock)\<close>, in this
  order, and checks nothing else. The converted arguments are Python values, since the
  conversions accept several types.
\<close>

definition Product_init :: "runtime \<Rightarrow> pyval \<Rightarrow> pyval \<Rightarrow> exn + (real \<times> int)" where
  "Product_init rt price_arg quantity_arg =
     (case py_float rt price_arg of
        Inl e \<Rightarrow> Inl e
      | Inr p \<Rightarrow>
          (case py_int rt quantity_arg of
             Inl e \<Rightarrow> Inl e
           | Inr q \<Rightarrow> Inr (p, q)))"

definition Electronics_init ::
  "runtime \<Rightarrow> string \<Rightarrow> string \<Rightarrow> pyval \<Rightarrow> pyval \<Rightarrow> pyval \<Rightarrow> string \<Rightarrow> exn + product" where
  "Electronics_init rt pid nm price_arg quantity_arg warranty_arg brand_arg =
     (case Product_init rt price_arg quantity_arg of
        Inl e \<Rightarrow> Inl e
      | Inr (p, q) \<Rightarrow>
          (case py_int rt warranty_arg of
             Inl e \<Rightarrow> Inl e
           | Inr w \<Rightarrow>
               Inr \<lparr>product_id = pid, name = nm, price = p, quantity_in_stock = q,
                    kind = Electronics w brand_arg\<rparr>))"

definition Grocery_init ::
  "runtime \<Rightarrow> string \<Rightarrow> string \<Rightarrow> pyval \<Rightarrow> pyval \<Rightarrow> pyval \<Rightarrow> exn + product" where
  "Grocery_init rt pid nm price_arg quantity_arg expiry_arg =
     (case Product_init rt price_arg quantity_arg of
        Inl e \<Rightarrow> Inl e
      | Inr (p, q) \<Rightarrow>
          (case date_parse rt expiry_arg of
             Inl e \<Rightarrow> Inl e
           | Inr d \<Rightarrow>
               Inr \<lparr>product_id = pid, name = nm, price = p, quantity_in_stock = q,
                    kind = Grocery d\<rparr>))"

definition Clothing_init ::
  "runtime \<Rightarrow> string \<Rightarrow> string \<Rightarrow> pyval \<Rightarrow> pyval \<Rightarrow> string \<Rightarrow> string \<Rightarrow> exn + product" where
  "Clothing_init rt pid nm price_arg quantity_arg size_arg material_arg =
     (case Product_init rt price_arg quantity_arg of
        Inl e \<Rightarrow> Inl e
      | Inr (p, q) \<Rightarrow>
          Inr \<lparr>product_id = pid, name = nm, price = p, quantity_in_stock = q,
               kind = Clothing size_arg material_arg\<rparr>)"

subsection \<open>Methods\<close>

text \<open>
  A method that assigns to \<^verbatim>\<open>self\<close> takes the object's state and returns the state after
  the call together with the outcome: \<open>Inl\<close> the exception raised, \<open>Inr\<close> the value
  returned (\<open>()\<close> for \<^verbatim>\<open>None\<close>).
\<close>

text \<open>The \<^verbatim>\<open>price\<close> setter.\<close>

definition set_price :: "product \<Rightarrow> real \<Rightarrow> product \<times> (exn + unit)" where
  "set_price self new_price =
     (if new_price < 0 then (self, Inl (ValueError ''Price cannot be negative''))
      else (self\<lparr>price := new_price\<rparr>, Inr ()))"

definition restock :: "product \<Rightarrow> int \<Rightarrow> product \<times> (exn + unit)" where
  "restock self amount =
     (if amount < 0 then (self, Inl (ValueError ''Restock amount cannot be negative''))
      else (self\<lparr>quantity_in_stock := quantity_in_stock self + amount\<rparr>, Inr ()))"

text \<open>
  \<^verbatim>\<open>sell\<close>: the stock is decremented first; the value returned is computed from the
  price of the object after that.
\<close>

definition sell :: "product \<Rightarrow> int \<Rightarrow> product \<times> (exn + real)" where
  "sell self quantity =
     (if quantity < 0 then (self, Inl (ValueError ''Sale quantity cannot be negative''))
      else if quantity_in_stock self < quantity then
        (self, Inl (InsufficientStockError (product_id self) quantity (quantity_in_stock self)))
      else
        (let self' = self\<lparr>quantity_in_stock := quantity_in_stock self - quantity\<rparr>
         in (self', Inr (price self' * of_int quantity))))"

definition get_total_value :: "product \<Rightarrow> real" where
  "get_total_value self = price self * of_int (quantity_in_stock self)"

text \<open>\<^verbatim>\<open>self.__class__.__name__\<close>.\<close>

fun class_name :: "variant \<Rightarrow> string" where
  "class_name (Electronics w b) = ''Electronics''"
| "class_name (Grocery d) = ''Grocery''"
| "class_name (Clothing s m) = ''Clothing''"

text \<open>\<^verbatim>\<open>Grocery.is_expired\<close>; \<open>today\<close> is \<^verbatim>\<open>datetime.now().date()\<close>.\<close>

definition is_expired :: "date \<Rightarrow> date \<Rightarrow> bool" where
  "is_expired today expiry \<longleftrightarrow> date_gt today expiry"

text \<open>
  \<^verbatim>\<open>to_dict\<close>: the base class's dictionary, then \<^verbatim>\<open>update\<close> with the subclass's
  fields, whose keys are new and so go to the end.
\<close>

definition Product_to_dict :: "product \<Rightarrow> (string \<times> pyval) list" where
  "Product_to_dict self =
     [(''product_id'', PStr (product_id self)),
      (''name'', PStr (name self)),
      (''price'', PFloat (price self)),
      (''quantity_in_stock'', PInt (quantity_in_stock self)),
      (''type'', PStr (class_name (kind self)))]"

fun variant_fields :: "variant \<Rightarrow> (string \<times> pyval) list" where
  "variant_fields (Electronics w b) = [(''warranty_years'', PInt w), (''brand'', PStr b)]"
| "variant_fields (Grocery d) = [(''expiry_date'', PStr (isoformat d))]"
| "variant_fields (Clothing s m) = [(''size'', PStr s), (''material'', PStr m)]"

definition to_dict :: "product \<Rightarrow> pyval" where
  "to_dict self = PDict (Product_to_dict self @ variant_fields (kind self))"

subsection \<open>Sequences of calls on one product\<close>

text \<open>
  A caller's sequence of mutating calls on one object, and the object after all of
  them; a call that raises is followed by the next one.
\<close>

datatype operation = SetPrice real | Sell int | Restock int

fun after_operation :: "product \<Rightarrow> operation \<Rightarrow> product" where
  "after_operation p (SetPrice x) = fst (set_price p x)"
| "after_operation p (Sell n) = fst (sell p n)"
| "after_operation p (Restock n) = fst (restock p n)"

definition run_operations :: "product \<Rightarrow> operation list \<Rightarrow> product" where
  "run_operations p ops = foldl after_operation p ops"

text \<open>The calls that do not raise.\<close>

fun succeeds :: "product \<Rightarrow> operation \<Rightarrow> bool" where
  "succeeds p (SetPrice x) \<longleftrightarrow> \<not> isl (snd (set_price p x))"
| "succeeds p (Sell n) \<longleftrightarrow> \<not> isl (snd (sell p n))"
| "succeeds p (Restock n) \<longleftrightarrow> \<not> isl (snd (restock p n))"

fun all_succeed :: "product \<Rightarrow> operation list \<Rightarrow> bool" where
  "all_succeed p [] = True"
| "all_succeed p (x # xs) = (succeeds p x \<and> all_succeed (after_operation p x) xs)"

text \<open>What a call adds to the stock when it does not raise.\<close>

fun stock_change :: "operation \<Rightarrow> int" where
  "stock_change (SetPrice x) = 0"
| "stock_change (Sell n) = - n"
| "stock_change (Restock n) = n"

fun is_set_price :: "operation \<Rightarrow> bool" where
  "is_set_price (SetPrice x) = True"
| "is_set_price operation = False"

text \<open>The product of the specification's scenario.\<close>

definition sample_electronics :: product where
  "sample_electronics =
     \<lparr>product_id = ''E1'', name = ''Phone'', price = 100, quantity_in_stock = 5,
      kind = Electronics 2 ''Acme''\<rparr>"

section \<open>Strings\<close>







section \<open>The inventory (models/inventory.py)\<close>

text \<open>
  \<^verbatim>\<open>self._products\<close> is a \<^verbatim>\<open>dict\<close> from product id to product: an association list in
  insertion order. The store the code builds has pairwise different keys, and each
  product is stored under its own id.
\<close>

type_synonym inventory = "(string \<times> product) list"

definition wf_inventory :: "inventory \<Rightarrow> bool" where
  "wf_inventory self \<longleftrightarrow> distinct (map fst self) \<and> list_all (\<lambda>(k, p). product_id p = k) self"

definition dict_values :: "('k \<times> 'v) list \<Rightarrow> 'v list" where
  "dict_values d = map snd d"

definition dict_contains :: "('k \<times> 'v) list \<Rightarrow> 'k \<Rightarrow> bool" where
  "dict_contains d k \<longleftrightarrow> k \<in> set (map fst d)"

text \<open>\<^verbatim>\<open>del d[k]\<close>, for a key that is present.\<close>

definition dict_del :: "('k \<times> 'v) list \<Rightarrow> 'k \<Rightarrow> ('k \<times> 'v) list" where
  "dict_del d k = filter (\<lambda>(k', v). k' \<noteq> k) d"

text \<open>The classes that \<^verbatim>\<open>PRODUCT_TYPES\<close> maps the type names to.\<close>

datatype product_class = ElectronicsClass | GroceryClass | ClothingClass

definition PRODUCT_TYPES :: "(string \<times> product_class) list" where
  "PRODUCT_TYPES =
     [(''Electronics'', ElectronicsClass), (''Grocery'', GroceryClass),
      (''Clothing'', ClothingClass)]"

fun class_of :: "variant \<Rightarrow> product_class" where
  "class_of (Electronics w b) = ElectronicsClass"
| "class_of (Grocery d) = GroceryClass"
| "class_of (Clothing s m) = ClothingClass"

text \<open>\<^verbatim>\<open>isinstance(product, cls)\<close>: no product class is a subclass of another.\<close>

definition isinstance :: "product \<Rightarrow> product_class \<Rightarrow> bool" where
  "isinstance p cls \<longleftrightarrow> class_of (kind p) = cls"

text \<open>
  \<^verbatim>\<open>add_product\<close>: the assignment to a key that is not in the dict puts the entry
  last.
\<close>

definition add_product :: "inventory \<Rightarrow> product \<Rightarrow> inventory \<times> (exn + unit)" where
  "add_product self p =
     (if dict_contains self (product_id p) then (self, Inl (DuplicateProductError (product_id p)))
      else (self @ [(product_id p, p)], Inr ()))"

definition remove_product :: "inventory \<Rightarrow> string \<Rightarrow> inventory \<times> (exn + unit)" where
  "remove_product self pid =
     (if \<not> dict_contains self pid then (self, Inl (ProductNotFoundError pid))
      else (dict_del self pid, Inr ()))"

definition get_product :: "inventory \<Rightarrow> string \<Rightarrow> exn + product" where
  "get_product self pid =
     (case map_of self pid of
        None \<Rightarrow> Inl (ProductNotFoundError pid)
      | Some p \<Rightarrow> Inr p)"


definition search_by_type :: "inventory \<Rightarrow> string \<Rightarrow> inventory \<times> (exn + product list)" where
  "search_by_type self product_type =
     (case map_of PRODUCT_TYPES product_type of
        None \<Rightarrow> (self, Inl (InvalidProductTypeError product_type))
      | Some cls \<Rightarrow>
          (self, Inr (filter (\<lambda>product. isinstance product cls) (dict_values self))))"

definition list_all_products :: "inventory \<Rightarrow> product list" where
  "list_all_products self = dict_values self"

text \<open>
  \<^verbatim>\<open>sell_product\<close> and \<^verbatim>\<open>restock_product\<close> mutate the product object that the dict
  holds: the entry keeps its place and gets the new state.
\<close>

definition dict_replace :: "('k \<times> 'v) list \<Rightarrow> 'k \<Rightarrow> 'v \<Rightarrow> ('k \<times> 'v) list" where
  "dict_replace d k v = map (\<lambda>(k', v'). if k' = k then (k', v) else (k', v')) d"

definition sell_product :: "inventory \<Rightarrow> string \<Rightarrow> int \<Rightarrow> inventory \<times> (exn + real)" where
  "sell_product self pid quantity =
     (case get_product self pid of
        Inl e \<Rightarrow> (self, Inl e)
      | Inr product \<Rightarrow>
          (case sell product quantity of
             (product', outcome) \<Rightarrow> (dict_replace self pid product', outcome)))"

definition restock_product :: "inventory \<Rightarrow> string \<Rightarrow> int \<Rightarrow> inventory \<times> (exn + unit)" where
  "restock_product self pid quantity =
     (case get_product self pid of
        Inl e \<Rightarrow> (self, Inl e)
      | Inr product \<Rightarrow>
          (case restock product quantity of
             (product', outcome) \<Rightarrow> (dict_replace self pid product', outcome)))"

text \<open>\<^verbatim>\<open>sum(...)\<close> adds the items to 0 from left to right.\<close>

definition total_inventory_value :: "inventory \<Rightarrow> real" where
  "total_inventory_value self =
     foldl (\<lambda>acc product. acc + get_total_value product) 0 (dict_values self)"

text \<open>
  \<^verbatim>\<open>remove_expired_products\<close>: the loop runs over a copy of the items, deletes from
  the dict and appends to \<^verbatim>\<open>expired_ids\<close>. The state of the loop is the pair of both.
  The date of the call is a parameter, the same for every product of one sweep.
\<close>

definition expired_now :: "date \<Rightarrow> product \<Rightarrow> bool" where
  "expired_now today product =
     (case kind product of Grocery d \<Rightarrow> is_expired today d | _ \<Rightarrow> False)"

definition sweep_step ::
  "date \<Rightarrow> string \<times> product \<Rightarrow> inventory \<times> string list \<Rightarrow> inventory \<times> string list" where
  "sweep_step today item st =
     (case item of (pid, product) \<Rightarrow>
        (case st of (products, expired_ids) \<Rightarrow>
           if expired_now today product then (dict_del products pid, expired_ids @ [pid])
           else (products, expired_ids)))"

definition remove_expired_products :: "date \<Rightarrow> inventory \<Rightarrow> inventory \<times> string list" where
  "remove_expired_products today self = fold (sweep_step today) self (self, [])"


text \<open>A store of four products, one grocery expired long ago and one far from it.\<close>

definition sample_store :: inventory where
  "sample_store =
     [(''E1'', sample_electronics),
      (''G1'', \<lparr>product_id = ''G1'', name = ''Milk'', price = 2, quantity_in_stock = 10,
               kind = Grocery \<lparr>year = 2000, month = 1, day = 1\<rparr>\<rparr>),
      (''C1'', \<lparr>product_id = ''C1'', name = ''Silk Shirt'', price = 30, quantity_in_stock = 4,
               kind = Clothing ''M'' ''Silk''\<rparr>),
      (''G2'', \<lparr>product_id = ''G2'', name = ''Honey'', price = 8, quantity_in_stock = 3,
               kind = Grocery \<lparr>year = 2999, month = 12, day = 31\<rparr>\<rparr>)]"

subsection \<open>Saving and loading\<close>

text \<open>
  What opening a file and \<^verbatim>\<open>json.load\<close> do for a file name: raise (the file cannot
  be opened, or its text is not JSON: \<open>JSONDecodeError\<close>), or return the value the
  text stands for. \<^verbatim>\<open>json.dump\<close> followed by \<^verbatim>\<open>json.load\<close> returns the value dumped,
  for the values \<open>to_dict\<close> builds; a write is taken to succeed.
\<close>

datatype read_result = Raises exn | Parsed pyval

type_synonym filesystem = "string \<Rightarrow> read_result"

definition save_to_file :: "inventory \<Rightarrow> string \<Rightarrow> filesystem \<Rightarrow> filesystem" where
  "save_to_file self filename fs =
     fs(filename := Parsed (PDict [(''products'', PList (map to_dict (dict_values self)))]))"

text \<open>\<^verbatim>\<open>data.get('products', [])\<close>: only a dict has \<^verbatim>\<open>get\<close>.\<close>

fun get_products :: "pyval \<Rightarrow> exn + pyval" where
  "get_products (PDict d) =
     Inr (case map_of d ''products'' of None \<Rightarrow> PList [] | Some v \<Rightarrow> v)"
| "get_products v = Inl (AttributeError ''object has no attribute get'')"

text \<open>
  What a \<^verbatim>\<open>for\<close> loop runs over: the items of a list, the keys of a dict, the
  characters of a string; nothing else can be iterated.
\<close>

fun py_iter :: "pyval \<Rightarrow> exn + pyval list" where
  "py_iter (PList xs) = Inr xs"
| "py_iter (PDict d) = Inr (map (\<lambda>(k, v). PStr k) d)"
| "py_iter (PStr s) = Inr (map (\<lambda>c. PStr [c]) s)"
| "py_iter v = Inl (TypeError ''object is not iterable'')"

text \<open>
  \<^verbatim>\<open>product_data.pop('type', None)\<close>: the value and the dict without the key. A list
  has a \<^verbatim>\<open>pop\<close> of one argument, other values have none.
\<close>

fun pop_type :: "pyval \<Rightarrow> exn + (pyval \<times> (string \<times> pyval) list)" where
  "pop_type (PDict d) =
     Inr (case map_of d ''type'' of None \<Rightarrow> PNone | Some v \<Rightarrow> v,
          filter (\<lambda>(k, v). k \<noteq> ''type'') d)"
| "pop_type (PList xs) = Inl (TypeError ''pop expected at most 1 argument, got 2'')"
| "pop_type v = Inl (AttributeError ''object has no attribute pop'')"


fun lookup_type :: "pyval \<Rightarrow> exn + product_class option" where
  "lookup_type (PStr s) = Inr (map_of PRODUCT_TYPES s)"
| "lookup_type (PList xs) = Inl (TypeError ''unhashable type: list'')"
| "lookup_type (PDict d) = Inl (TypeError ''unhashable type: dict'')"
| "lookup_type v = Inr None"

text \<open>
  \<^verbatim>\<open>product_class(**product_data)\<close>. The keys must be the constructor's parameters,
  no more and no fewer. The constructors store the arguments annotated \<^verbatim>\<open>str\<close> as they
  come; the product record has strings there, so an entry with another value in such
  a place is outside the model: the result is \<open>None\<close>.
\<close>

definition kwarg :: "(string \<times> pyval) list \<Rightarrow> string \<Rightarrow> pyval" where
  "kwarg kw k = (case map_of kw k of None \<Rightarrow> PNone | Some v \<Rightarrow> v)"

fun parameters :: "product_class \<Rightarrow> string list" where
  "parameters ElectronicsClass =
     [''product_id'', ''name'', ''price'', ''quantity_in_stock'', ''warranty_years'', ''brand'']"
| "parameters GroceryClass =
     [''product_id'', ''name'', ''price'', ''quantity_in_stock'', ''expiry_date'']"
| "parameters ClothingClass =
     [''product_id'', ''name'', ''price'', ''quantity_in_stock'', ''size'', ''material'']"

text \<open>The parameters annotated \<^verbatim>\<open>str\<close>, which the constructors store unconverted.\<close>

fun str_parameters :: "product_class \<Rightarrow> string list" where
  "str_parameters ElectronicsClass = [''product_id'', ''name'', ''brand'']"
| "str_parameters GroceryClass = [''product_id'', ''name'']"
| "str_parameters ClothingClass = [''product_id'', ''name'', ''size'', ''material'']"

fun is_str :: "pyval \<Rightarrow> bool" where
  "is_str (PStr s) = True"
| "is_str v = False"

text \<open>The string that a value of type \<^verbatim>\<open>str\<close> is; applied to such values only.\<close>

fun the_str :: "pyval \<Rightarrow> string" where
  "the_str (PStr s) = s"
| "the_str v = []"

fun call_init :: "runtime \<Rightarrow> product_class \<Rightarrow> (string \<times> pyval) list \<Rightarrow> (exn + product) option" where
  "call_init rt ElectronicsClass kw =
     (if \<not> list_all (\<lambda>k. is_str (kwarg kw k)) (str_parameters ElectronicsClass) then None
      else Some (Electronics_init rt (the_str (kwarg kw ''product_id'')) (the_str (kwarg kw ''name''))
                   (kwarg kw ''price'') (kwarg kw ''quantity_in_stock'')
                   (kwarg kw ''warranty_years'') (the_str (kwarg kw ''brand''))))"
| "call_init rt GroceryClass kw =
     (if \<not> list_all (\<lambda>k. is_str (kwarg kw k)) (str_parameters GroceryClass) then None
      else Some (Grocery_init rt (the_str (kwarg kw ''product_id'')) (the_str (kwarg kw ''name''))
                   (kwarg kw ''price'') (kwarg kw ''quantity_in_stock'')
                   (kwarg kw ''expiry_date'')))"
| "call_init rt ClothingClass kw =
     (if \<not> list_all (\<lambda>k. is_str (kwarg kw k)) (str_parameters ClothingClass) then None
      else Some (Clothing_init rt (the_str (kwarg kw ''product_id'')) (the_str (kwarg kw ''name''))
                   (kwarg kw ''price'') (kwarg kw ''quantity_in_stock'')
                   (the_str (kwarg kw ''size'')) (the_str (kwarg kw ''material''))))"

definition new_product :: "runtime \<Rightarrow> product_class \<Rightarrow> (string \<times> pyval) list \<Rightarrow> (exn + product) option" where
  "new_product rt cls kw =
     (if set (map fst kw) \<noteq> set (parameters cls) then
        Some (Inl (TypeError ''__init__() got unexpected or missing keyword arguments''))
      else call_init rt cls kw)"

text \<open>
  The body of the \<^verbatim>\<open>for\<close> loop of \<^verbatim>\<open>load_from_file\<close> for one entry, with its inner
  \<^verbatim>\<open>try\<close>: whatever the constructor or \<^verbatim>\<open>add_product\<close> raises becomes an
  \<^verbatim>\<open>InvalidProductDataError\<close>.
\<close>

definition load_entry :: "runtime \<Rightarrow> pyval \<Rightarrow> inventory \<Rightarrow> (exn + inventory) option" where
  "load_entry rt product_data inventory =
     (case pop_type product_data of
        Inl e \<Rightarrow> Some (Inl e)
      | Inr (product_type, rest) \<Rightarrow>
          (case lookup_type product_type of
             Inl e \<Rightarrow> Some (Inl e)
           | Inr None \<Rightarrow>
               Some (Inl (InvalidProductDataError
                            (''Unknown product type: '' @ py_str rt product_type)))
           | Inr (Some product_class) \<Rightarrow>
               (case new_product rt product_class rest of
                  None \<Rightarrow> None
                | Some (Inl e) \<Rightarrow>
                    Some (Inl (InvalidProductDataError (''Error creating product: '' @ exn_str e)))
                | Some (Inr product) \<Rightarrow>
                    (case add_product inventory product of
                       (inventory', Inl e) \<Rightarrow>
                         Some (Inl (InvalidProductDataError
                                      (''Error creating product: '' @ exn_str e)))
                     | (inventory', Inr u) \<Rightarrow> Some (Inr inventory')))))"

fun load_products :: "runtime \<Rightarrow> pyval list \<Rightarrow> inventory \<Rightarrow> (exn + inventory) option" where
  "load_products rt [] inventory = Some (Inr inventory)"
| "load_products rt (product_data # later) inventory =
     (case load_entry rt product_data inventory of
        None \<Rightarrow> None
      | Some (Inl e) \<Rightarrow> Some (Inl e)
      | Some (Inr inventory') \<Rightarrow> load_products rt later inventory')"

text \<open>The two \<^verbatim>\<open>except\<close> clauses of the outer \<^verbatim>\<open>try\<close>, in their order.\<close>

fun load_handler :: "exn \<Rightarrow> exn" where
  "load_handler (JSONDecodeError m) = InvalidProductDataError ''Invalid JSON file''"
| "load_handler e = InvalidProductDataError (''Error loading inventory: '' @ exn_str e)"

text \<open>
  What the outer \<^verbatim>\<open>try\<close> block does with the value read; the loop starts from
  \<^verbatim>\<open>cls()\<close>, the empty inventory.
\<close>

definition load_data :: "runtime \<Rightarrow> pyval \<Rightarrow> (exn + inventory) option" where
  "load_data rt data =
     (case get_products data of
        Inl e \<Rightarrow> Some (Inl e)
      | Inr v \<Rightarrow>
          (case py_iter v of
             Inl e \<Rightarrow> Some (Inl e)
           | Inr entries \<Rightarrow> load_products rt entries []))"

definition load_from_file :: "runtime \<Rightarrow> filesystem \<Rightarrow> string \<Rightarrow> (exn + inventory) option" where
  "load_from_file rt fs filename =
     (case fs filename of
        Raises e \<Rightarrow> Some (Inl (load_handler e))
      | Parsed data \<Rightarrow>
          (case load_data rt data of
             None \<Rightarrow> None
           | Some (Inl e) \<Rightarrow> Some (Inl (load_handler e))
           | Some (Inr inventory) \<Rightarrow> Some (Inr inventory)))"

text \<open>
  The date parser reads back the text that \<open>to_dict\<close> writes for the product's date
  (a product that is not a \<open>Grocery\<close> has none).
\<close>

definition dates_parse :: "runtime \<Rightarrow> product \<Rightarrow> bool" where
  "dates_parse rt p \<longleftrightarrow>
     (case kind p of Grocery d \<Rightarrow> date_parse rt (PStr (isoformat d)) = Inr d | _ \<Rightarrow> True)"




subsection \<open>A runtime to compute with\<close>

text \<open>
  An instance of the parameters: a date parser that reads \<^verbatim>\<open>YYYY-MM-DD\<close> and nothing
  else, conversions that accept no string, and one text for every float, list and dict.
\<close>

definition digit_value :: "char \<Rightarrow> nat option" where
  "digit_value c =
     (let n = (of_char c :: nat) in if 48 \<le> n \<and> n \<le> 57 then Some (n - 48) else None)"

fun number_of :: "nat \<Rightarrow> string \<Rightarrow> nat option" where
  "number_of acc [] = Some acc"
| "number_of acc (c # cs) =
     (case digit_value c of None \<Rightarrow> None | Some v \<Rightarrow> number_of (10 * acc + v) cs)"

definition iso_parser :: "pyval \<Rightarrow> exn + date" where
  "iso_parser v =
     (case v of
        PStr s \<Rightarrow>
          (if length s = 10 \<and> s ! 4 = CHR ''-'' \<and> s ! 7 = CHR ''-'' then
             (case (number_of 0 (take 4 s), number_of 0 (take 2 (drop 5 s)),
                    number_of 0 (drop 8 s)) of
                (Some y, Some m, Some d) \<Rightarrow>
                  if 1 \<le> y \<and> 1 \<le> m \<and> m \<le> 12 \<and> 1 \<le> d \<and> d \<le> 31
                  then Inr \<lparr>year = y, month = m, day = d\<rparr>
                  else Inl (ValueError ''date out of range'')
              | _ \<Rightarrow> Inl (ValueError ''Unknown string format''))
           else Inl (ValueError ''Unknown string format''))
      | _ \<Rightarrow> Inl (TypeError ''Parser must be a string or character stream''))"

definition iso_runtime :: runtime where
  "iso_runtime =
     \<lparr>float_of_str = (\<lambda>s. Inl (ValueError ''could not convert string to float'')),
      int_of_str = (\<lambda>s. Inl (ValueError ''invalid literal for int()'')),
      date_parse = iso_parser,
      str_other = (\<lambda>v. ''?'')\<rparr>"

section \<open>Selling, restocking and pricing\<close>



text \<open>
  C3. \<open>sell\<close> with a negative quantity raises \<open>ValueError\<close> (the specification's
  InvalidArgument); with a quantity above the stock it raises \<open>InsufficientStockError\<close>
  with the product id, the quantity asked for and the stock. In both cases the product
  after the call is the product before it. The checks are made in this order, so the
  second case is stated for a quantity that passed the first; when the stock is not
  negative, a quantity above it always has.
\<close>

theorem sell_failures:
  "(quantity < 0 \<longrightarrow>
      sell p quantity = (p, Inl (ValueError ''Sale quantity cannot be negative'')))
   \<and> (0 \<le> quantity \<and> quantity_in_stock p < quantity \<longrightarrow>
      sell p quantity
        = (p, Inl (InsufficientStockError (product_id p) quantity (quantity_in_stock p))))
   \<and> (0 \<le> quantity_in_stock p \<and> quantity_in_stock p < quantity \<longrightarrow>
      sell p quantity
        = (p, Inl (InsufficientStockError (product_id p) quantity (quantity_in_stock p))))"
  by (simp add: sell_def)

theorem sell_failures_witness:
  "sell sample_electronics (- 1)
     = (sample_electronics, Inl (ValueError ''Sale quantity cannot be negative''))
   \<and> sell (sample_electronics\<lparr>quantity_in_stock := 2\<rparr>) 3
     = (sample_electronics\<lparr>quantity_in_stock := 2\<rparr>, Inl (InsufficientStockError ''E1'' 3 2))"
  using sell_failures [of "- 1" sample_electronics]
    sell_failures [of 3 "sample_electronics\<lparr>quantity_in_stock := 2\<rparr>"]
  by (simp add: sample_electronics_def)

subsection \<open>The specification's scenario, and restocking twice\<close>

lemma restock_twice:
  "0 \<le> a \<Longrightarrow> 0 \<le> b \<Longrightarrow> fst (restock (fst (restock p a)) b) = fst (restock p (a + b))"
  by (simp add: restock_def)

lemma scenario_sell_twice:
  "add_product [] sample_electronics = ([(''E1'', sample_electronics)], Inr ())"
  "sell_product [(''E1'', sample_electronics)] ''E1'' 3
     = ([(''E1'', sample_electronics\<lparr>quantity_in_stock := 2\<rparr>)], Inr 300)"
  "sell_product [(''E1'', sample_electronics\<lparr>quantity_in_stock := 2\<rparr>)] ''E1'' 3
     = ([(''E1'', sample_electronics\<lparr>quantity_in_stock := 2\<rparr>)],
        Inl (InsufficientStockError ''E1'' 3 2))"
  by (simp_all add: add_product_def dict_contains_def sell_product_def get_product_def sell_def
        dict_replace_def sample_electronics_def)

subsection \<open>Non-negative price and stock\<close>







subsection \<open>Total value\<close>

lemma after_operation_stock:
  "succeeds p x \<Longrightarrow> \<not> is_set_price x \<Longrightarrow>
   price (after_operation p x) = price p
   \<and> quantity_in_stock (after_operation p x) = quantity_in_stock p + stock_change x"
  by (cases x) (auto simp: sell_def restock_def Let_def split: if_splits)

lemma run_operations_stock:
  "all_succeed p ops \<Longrightarrow> \<not> list_ex is_set_price ops \<Longrightarrow>
   price (run_operations p ops) = price p
   \<and> quantity_in_stock (run_operations p ops)
       = quantity_in_stock p + sum_list (map stock_change ops)"
  unfolding run_operations_def
proof (induction ops arbitrary: p)
  case Nil
  then show ?case by simp
next
  case (Cons x xs)
  from Cons.prems have s: "succeeds p x" "\<not> is_set_price x"
    and r: "all_succeed (after_operation p x) xs" "\<not> list_ex is_set_price xs"
    by simp_all
  from after_operation_stock [OF s] Cons.IH [OF r] show ?case by simp
qed

lemma foldl_add_sum_list:
  "foldl (\<lambda>acc x. acc + f x) (a::real) xs = a + sum_list (map f xs)"
  by (induction xs arbitrary: a) simp_all

text \<open>
  C9. After a sequence of \<open>sell\<close> and \<open>restock\<close> calls none of which raises, the
  price is the one before, the stock is the one before plus what the calls added, and
  \<open>get_total_value\<close> is their product; after any sequence of calls it is the product
  of the current price and the current stock. \<open>total_inventory_value\<close> is the sum of
  \<open>get_total_value\<close> over the stored products, 0 for the empty store.
\<close>

theorem total_value_is_price_times_stock:
  "(all_succeed p ops \<and> \<not> list_ex is_set_price ops \<longrightarrow>
      get_total_value (run_operations p ops)
        = price p * of_int (quantity_in_stock p + sum_list (map stock_change ops)))
   \<and> get_total_value (run_operations p ops)
        = price (run_operations p ops) * of_int (quantity_in_stock (run_operations p ops))
   \<and> total_inventory_value store = sum_list (map get_total_value (dict_values store))
   \<and> total_inventory_value [] = 0"
proof -
  have a: "all_succeed p ops \<and> \<not> list_ex is_set_price ops \<longrightarrow>
      get_total_value (run_operations p ops)
        = price p * of_int (quantity_in_stock p + sum_list (map stock_change ops))"
    using run_operations_stock [of p ops] by (simp add: get_total_value_def)
  have b: "get_total_value (run_operations p ops)
        = price (run_operations p ops) * of_int (quantity_in_stock (run_operations p ops))"
    by (simp add: get_total_value_def)
  have c: "total_inventory_value store = sum_list (map get_total_value (dict_values store))"
    by (simp add: total_inventory_value_def foldl_add_sum_list)
  have d: "total_inventory_value [] = 0"
    by (simp add: total_inventory_value_def dict_values_def)
  from a b c d show ?thesis by blast
qed

theorem total_value_is_price_times_stock_witness:
  "get_total_value (run_operations sample_electronics [Sell 3, Restock 4]) = 600
   \<and> total_inventory_value
       [(''E1'', sample_electronics),
        (''E2'', sample_electronics\<lparr>product_id := ''E2'', price := 2\<rparr>)]
     = 510"
proof -
  have a: "all_succeed sample_electronics [Sell 3, Restock 4]
           \<and> \<not> list_ex is_set_price [Sell 3, Restock 4]"
    by (simp add: sample_electronics_def sell_def restock_def)
  from total_value_is_price_times_stock
         [of sample_electronics "[Sell 3, Restock 4]"
             "[(''E1'', sample_electronics),
               (''E2'', sample_electronics\<lparr>product_id := ''E2'', price := 2\<rparr>)]"]
  show ?thesis using a
    by (simp add: sample_electronics_def dict_values_def get_total_value_def)
qed

section \<open>Searching\<close>

subsection \<open>By name\<close>












subsection \<open>By type\<close>

lemma map_of_PRODUCT_TYPES:
  "map_of PRODUCT_TYPES t =
     (if t = ''Electronics'' then Some ElectronicsClass
      else if t = ''Grocery'' then Some GroceryClass
      else if t = ''Clothing'' then Some ClothingClass
      else None)"
  by (simp add: PRODUCT_TYPES_def)

lemma isinstance_class_name:
  "isinstance p ElectronicsClass \<longleftrightarrow> class_name (kind p) = ''Electronics''"
  "isinstance p GroceryClass \<longleftrightarrow> class_name (kind p) = ''Grocery''"
  "isinstance p ClothingClass \<longleftrightarrow> class_name (kind p) = ''Clothing''"
  by (cases "kind p"; simp add: isinstance_def)+

text \<open>
  C8. \<open>search_by_type\<close> raises if and only if the type name is none of
  \<^verbatim>\<open>Electronics\<close>, \<^verbatim>\<open>Grocery\<close> and \<^verbatim>\<open>Clothing\<close>, and then it raises
  \<open>InvalidProductTypeError\<close> with that name; for one of the three names it returns,
  in the order of the store, exactly the stored products whose class has that name.
  The store after the call is the store before it.
\<close>

theorem search_by_type_known_or_error:
  "((\<exists>e. snd (search_by_type store t) = Inl e)
      \<longleftrightarrow> t \<notin> {''Electronics'', ''Grocery'', ''Clothing''})
   \<and> (t \<notin> {''Electronics'', ''Grocery'', ''Clothing''} \<longrightarrow>
        search_by_type store t = (store, Inl (InvalidProductTypeError t)))
   \<and> (t \<in> {''Electronics'', ''Grocery'', ''Clothing''} \<longrightarrow>
        search_by_type store t
          = (store, Inr (filter (\<lambda>p. class_name (kind p) = t) (dict_values store))))
   \<and> fst (search_by_type store t) = store"
  by (auto simp: search_by_type_def map_of_PRODUCT_TYPES isinstance_class_name)

theorem search_by_type_known_or_error_witness:
  "search_by_type sample_store ''Furniture''
     = (sample_store, Inl (InvalidProductTypeError ''Furniture''))
   \<and> map product_id (projr (snd (search_by_type sample_store ''Grocery''))) = [''G1'', ''G2'']
   \<and> fst (search_by_type sample_store ''Grocery'') = sample_store"
proof -
  have a: "''Furniture'' \<notin> {''Electronics'', ''Grocery'', ''Clothing''}"
    and b: "''Grocery'' \<in> {''Electronics'', ''Grocery'', ''Clothing''}"
    by simp_all
  have c: "map product_id (filter (\<lambda>p. class_name (kind p) = ''Grocery'') (dict_values sample_store))
             = [''G1'', ''G2'']"
    by (simp add: sample_store_def sample_electronics_def dict_values_def)
  from search_by_type_known_or_error [of sample_store "''Furniture''"] a
  have d: "search_by_type sample_store ''Furniture''
     = (sample_store, Inl (InvalidProductTypeError ''Furniture''))"
    by blast
  from search_by_type_known_or_error [of sample_store "''Grocery''"] b
  have e: "search_by_type sample_store ''Grocery''
          = (sample_store, Inr (filter (\<lambda>p. class_name (kind p) = ''Grocery'') (dict_values sample_store)))"
    by blast
  show ?thesis
    by (simp only: d e c fst_conv snd_conv sum.sel simp_thms)
qed

section \<open>The expiry sweep\<close>

lemma sweep_step_pair:
  "sweep_step today (k, p) (ps, ids)
     = (if expired_now today p then (dict_del ps k, ids @ [k]) else (ps, ids))"
  by (simp add: sweep_step_def)

lemma sweep_fold:
  "fold (sweep_step today) xs (ps, ids)
     = (filter (\<lambda>(k, p). k \<notin> fst ` set (filter (\<lambda>(k, p). expired_now today p) xs)) ps,
        ids @ map fst (filter (\<lambda>(k, p). expired_now today p) xs))"
proof (induction xs arbitrary: ps ids)
  case Nil
  then show ?case by simp
next
  case (Cons x xs)
  obtain k p where x: "x = (k, p)" by (cases x)
  show ?case
  proof (cases "expired_now today p")
    case True
    have "filter (\<lambda>(k', q). k' \<notin> fst ` set (filter (\<lambda>(k, p). expired_now today p) xs))
            (dict_del ps k)
          = filter (\<lambda>(k', q). k' \<notin> fst ` set (filter (\<lambda>(k, p). expired_now today p) (x # xs))) ps"
      using True by (induction ps) (auto simp: x dict_del_def)
    with True show ?thesis
      by (simp add: x sweep_step_pair Cons.IH)
  next
    case False
    then show ?thesis
      by (simp add: x sweep_step_pair Cons.IH)
  qed
qed

lemma distinct_key_expired:
  assumes "distinct (map fst store)" and "(k, p) \<in> set store"
  shows "k \<in> fst ` set (filter (\<lambda>(k, p). expired_now today p) store) \<longleftrightarrow> expired_now today p"
proof
  assume "k \<in> fst ` set (filter (\<lambda>(k, p). expired_now today p) store)"
  then obtain p' where m: "(k, p') \<in> set store" and e: "expired_now today p'"
    by auto
  from assms m have "p' = p"
    by (meson eq_key_imp_eq_value)
  with e show "expired_now today p" by simp
next
  assume "expired_now today p"
  with assms(2) show "k \<in> fst ` set (filter (\<lambda>(k, p). expired_now today p) store)"
    by force
qed

lemma expired_now_iff:
  "expired_now today p \<longleftrightarrow> (\<exists>d. kind p = Grocery d \<and> date_gt today d)"
  by (cases "kind p") (simp_all add: expired_now_def is_expired_def)

lemma remove_expired_products_filter:
  assumes "distinct (map fst store)"
  shows "remove_expired_products today store
           = (filter (\<lambda>(k, p). \<not> expired_now today p) store,
              map fst (filter (\<lambda>(k, p). expired_now today p) store))"
proof -
  have "filter (\<lambda>(k, p). k \<notin> fst ` set (filter (\<lambda>(k, p). expired_now today p) store)) store
          = filter (\<lambda>(k, p). \<not> expired_now today p) store"
    by (rule filter_cong) (use distinct_key_expired [OF assms] in auto)
  then show ?thesis
    by (simp add: remove_expired_products_def sweep_fold)
qed

text \<open>
  C6. For a store (a dict: the keys are pairwise different),
  \<open>remove_expired_products\<close> leaves in the store, in their order and unchanged, the
  entries that are not an expired grocery, and returns the ids of the removed entries
  in the order of the store; an entry is removed exactly when it is a \<open>Grocery\<close> and
  the date of the call is strictly after its expiry date.
\<close>

theorem sweep_removes_expired_groceries:
  assumes "distinct (map fst store)"
  shows "remove_expired_products today store
           = (filter (\<lambda>(k, p). \<not> expired_now today p) store,
              map fst (filter (\<lambda>(k, p). expired_now today p) store))
       \<and> (expired_now today p \<longleftrightarrow> (\<exists>d. kind p = Grocery d \<and> date_gt today d))"
  using remove_expired_products_filter [OF assms, of today] expired_now_iff [of today p]
  by blast

theorem sweep_removes_expired_groceries_witness:
  "remove_expired_products \<lparr>year = 2026, month = 11, day = 5\<rparr> sample_store
     = ([sample_store ! 0, sample_store ! 2, sample_store ! 3], [''G1''])"
proof -
  have a: "distinct (map fst sample_store)"
    by (simp add: sample_store_def)
  have b: "filter (\<lambda>(k, p). \<not> expired_now \<lparr>year = 2026, month = 11, day = 5\<rparr> p) sample_store
             = [sample_store ! 0, sample_store ! 2, sample_store ! 3]"
    by (simp add: sample_store_def sample_electronics_def expired_now_def is_expired_def date_gt_def)
  have c: "map fst (filter (\<lambda>(k, p). expired_now \<lparr>year = 2026, month = 11, day = 5\<rparr> p) sample_store)
             = [''G1'']"
    by (simp add: sample_store_def sample_electronics_def expired_now_def is_expired_def date_gt_def)
  from sweep_removes_expired_groceries [OF a, of "\<lparr>year = 2026, month = 11, day = 5\<rparr>"]
  show ?thesis by (simp only: b c)
qed

section \<open>Loading\<close>

text \<open>
  C10. When the file holds a JSON object without the key \<^verbatim>\<open>products\<close>,
  \<open>load_from_file\<close> does not raise and returns the empty inventory.
\<close>

theorem load_without_products_key:
  assumes "fs filename = Parsed (PDict d)" and "map_of d ''products'' = None"
  shows "load_from_file rt fs filename = Some (Inr [])"
  using assms by (simp add: load_from_file_def load_data_def)

theorem load_without_products_key_witness:
  "load_from_file iso_runtime (\<lambda>f. Parsed (PDict [(''version'', PInt 1)])) ''inventory.json''
     = Some (Inr [])"
proof -
  have a: "(\<lambda>f. Parsed (PDict [(''version'', PInt 1)])) ''inventory.json''
             = Parsed (PDict [(''version'', PInt 1)])"
    by simp
  have b: "map_of [(''version'', PInt 1)] ''products'' = None"
    by simp
  from load_without_products_key
         [of "\<lambda>f. Parsed (PDict [(''version'', PInt 1)])" "''inventory.json''"
             "[(''version'', PInt 1)]" iso_runtime]
  show ?thesis using a b by blast
qed


subsection \<open>Saving, then loading\<close>

lemma pop_type_to_dict:
  "pop_type (to_dict p)
     = Inr (PStr (class_name (kind p)),
            (''product_id'', PStr (product_id p)) # (''name'', PStr (name p))
            # (''price'', PFloat (price p)) # (''quantity_in_stock'', PInt (quantity_in_stock p))
            # variant_fields (kind p))"
  by (cases "kind p") (simp_all add: to_dict_def Product_to_dict_def)

lemma lookup_type_class_name: "map_of PRODUCT_TYPES (class_name v) = Some (class_of v)"
  by (cases v) (simp_all add: PRODUCT_TYPES_def)

lemma new_product_to_dict:
  assumes "dates_parse rt p"
  shows "new_product rt (class_of (kind p))
           ((''product_id'', PStr (product_id p)) # (''name'', PStr (name p))
            # (''price'', PFloat (price p)) # (''quantity_in_stock'', PInt (quantity_in_stock p))
            # variant_fields (kind p))
         = Some (Inr p)"
proof (cases "kind p")
  case (Electronics w b)
  then have "p = \<lparr>product_id = product_id p, name = name p, price = price p,
                  quantity_in_stock = quantity_in_stock p, kind = Electronics w b\<rparr>"
    by simp
  then show ?thesis
    using Electronics
    by (simp add: new_product_def kwarg_def Electronics_init_def Product_init_def insert_commute)
next
  case (Grocery d)
  then have "p = \<lparr>product_id = product_id p, name = name p, price = price p,
                  quantity_in_stock = quantity_in_stock p, kind = Grocery d\<rparr>"
    by simp
  then show ?thesis
    using Grocery assms
    by (simp add: new_product_def kwarg_def Grocery_init_def Product_init_def dates_parse_def
          insert_commute)
next
  case (Clothing s m)
  then have "p = \<lparr>product_id = product_id p, name = name p, price = price p,
                  quantity_in_stock = quantity_in_stock p, kind = Clothing s m\<rparr>"
    by simp
  then show ?thesis
    using Clothing
    by (simp add: new_product_def kwarg_def Clothing_init_def Product_init_def insert_commute)
qed

lemma load_entry_to_dict:
  assumes "dates_parse rt p" and "\<not> dict_contains inventory (product_id p)"
  shows "load_entry rt (to_dict p) inventory = Some (Inr (inventory @ [(product_id p, p)]))"
  using assms
  by (simp add: load_entry_def pop_type_to_dict lookup_type_class_name new_product_to_dict
        add_product_def)

lemma load_products_to_dict:
  assumes "wf_inventory (inventory @ store)" and "list_all (\<lambda>(k, p). dates_parse rt p) store"
  shows "load_products rt (map to_dict (dict_values store)) inventory
           = Some (Inr (inventory @ store))"
  using assms
proof (induction store arbitrary: inventory)
  case Nil
  then show ?case by (simp add: dict_values_def)
next
  case (Cons x xs)
  obtain k p where x: "x = (k, p)" by (cases x)
  from Cons.prems x have k: "product_id p = k" and fresh: "\<not> dict_contains inventory k"
    and d: "dates_parse rt p"
    by (auto simp: wf_inventory_def dict_contains_def)
  from Cons.prems x have w: "wf_inventory ((inventory @ [(k, p)]) @ xs)"
    and r: "list_all (\<lambda>(k, p). dates_parse rt p) xs"
    by simp_all
  from load_entry_to_dict [of rt p inventory] d fresh k
  have "load_entry rt (to_dict p) inventory = Some (Inr (inventory @ [(k, p)]))"
    by simp
  with Cons.IH [OF w r] show ?case
    by (simp add: x dict_values_def)
qed

text \<open>
  C1. For a store (a dict whose products are stored under their own ids) whose grocery
  dates the date parser reads back from their ISO text, saving to a file and loading
  that file returns the same store: the same ids in the same order, each with a
  product equal in class and in every field. For one product: the dictionary of
  \<open>to_dict\<close> carries the class name as its \<^verbatim>\<open>type\<close>, and constructing the class of
  that name from the other entries gives the product back.
\<close>

theorem save_then_load:
  assumes "wf_inventory store" and "list_all (\<lambda>(k, p). dates_parse rt p) store"
  shows "load_from_file rt (save_to_file store filename fs) filename = Some (Inr store)
       \<and> (dates_parse rt p \<longrightarrow>
            (\<exists>kw. pop_type (to_dict p) = Inr (PStr (class_name (kind p)), kw)
               \<and> map_of PRODUCT_TYPES (class_name (kind p)) = Some (class_of (kind p))
               \<and> new_product rt (class_of (kind p)) kw = Some (Inr p)))"
proof -
  from assms have "load_products rt (map to_dict (dict_values store)) [] = Some (Inr store)"
    using load_products_to_dict [of "[]" store rt] by simp
  then have a: "load_from_file rt (save_to_file store filename fs) filename = Some (Inr store)"
    by (simp add: load_from_file_def save_to_file_def load_data_def)
  have b: "dates_parse rt p \<longrightarrow>
            (\<exists>kw. pop_type (to_dict p) = Inr (PStr (class_name (kind p)), kw)
               \<and> map_of PRODUCT_TYPES (class_name (kind p)) = Some (class_of (kind p))
               \<and> new_product rt (class_of (kind p)) kw = Some (Inr p))"
    by (simp add: pop_type_to_dict lookup_type_class_name new_product_to_dict)
  from a b show ?thesis by blast
qed

lemma isoformat_samples:
  "isoformat \<lparr>year = 2000, month = 1, day = 1\<rparr> = ''2000-01-01''"
  "isoformat \<lparr>year = 2999, month = 12, day = 31\<rparr> = ''2999-12-31''"
  by (simp_all add: isoformat_def zfill_def dec.simps digit_char_def)

lemma iso_parser_samples:
  "iso_parser (PStr ''2000-01-01'') = Inr \<lparr>year = 2000, month = 1, day = 1\<rparr>"
  "iso_parser (PStr ''2999-12-31'') = Inr \<lparr>year = 2999, month = 12, day = 31\<rparr>"
  by (simp_all add: iso_parser_def digit_value_def)

theorem save_then_load_witness:
  "load_from_file iso_runtime
     (save_to_file sample_store ''inventory.json'' (\<lambda>f. Raises (OSError ''No such file'')))
     ''inventory.json''
   = Some (Inr sample_store)"
proof -
  have a: "wf_inventory sample_store"
    by (simp add: wf_inventory_def sample_store_def sample_electronics_def)
  have b: "list_all (\<lambda>(k, p). dates_parse iso_runtime p) sample_store"
    by (simp add: sample_store_def sample_electronics_def dates_parse_def iso_runtime_def
          isoformat_samples [unfolded One_nat_def] iso_parser_samples [unfolded One_nat_def]
          isoformat_samples iso_parser_samples)
  from save_then_load [OF a b] show ?thesis by blast
qed

subsection \<open>Failures of loading\<close>











section \<open>The invariant of the store\<close>

text \<open>
  The empty inventory is a dict of products stored under their own ids, and every
  method keeps it one, whether it raises or not; so is every inventory that
  \<open>load_from_file\<close> returns.
\<close>

lemma wf_inventory_empty: "wf_inventory []"
  by (simp add: wf_inventory_def)

lemma wf_add_product: "wf_inventory store \<Longrightarrow> wf_inventory (fst (add_product store p))"
  by (auto simp: wf_inventory_def add_product_def dict_contains_def)

lemma wf_dict_del: "wf_inventory store \<Longrightarrow> wf_inventory (dict_del store k)"
  by (auto simp: wf_inventory_def dict_del_def distinct_map_filter list_all_iff)

lemma wf_remove_product: "wf_inventory store \<Longrightarrow> wf_inventory (fst (remove_product store pid))"
  by (simp add: remove_product_def wf_dict_del)

lemma sell_product_id: "product_id (fst (sell p n)) = product_id p"
  by (simp add: sell_def Let_def)

lemma restock_product_id: "product_id (fst (restock p n)) = product_id p"
  by (simp add: restock_def)

lemma map_fst_dict_replace: "map fst (dict_replace d k v) = map fst d"
  by (induction d) (auto simp: dict_replace_def)

lemma wf_dict_replace:
  "wf_inventory store \<Longrightarrow> product_id p = k \<Longrightarrow> wf_inventory (dict_replace store k p)"
  unfolding wf_inventory_def map_fst_dict_replace
  by (auto simp: dict_replace_def list_all_iff split: if_splits)

lemma get_product_id:
  "wf_inventory store \<Longrightarrow> get_product store pid = Inr p \<Longrightarrow> product_id p = pid"
  by (auto simp: wf_inventory_def get_product_def list_all_iff split: option.splits
        dest!: map_of_SomeD)

lemma wf_sell_product:
  assumes "wf_inventory store"
  shows "wf_inventory (fst (sell_product store pid n))"
proof (cases "get_product store pid")
  case (Inl e)
  with assms show ?thesis by (simp add: sell_product_def)
next
  case (Inr p)
  from get_product_id [OF assms Inr] have "product_id (fst (sell p n)) = pid"
    by (simp add: sell_product_id)
  with assms Inr show ?thesis
    by (cases "sell p n") (simp add: sell_product_def wf_dict_replace)
qed

lemma wf_restock_product:
  assumes "wf_inventory store"
  shows "wf_inventory (fst (restock_product store pid n))"
proof (cases "get_product store pid")
  case (Inl e)
  with assms show ?thesis by (simp add: restock_product_def)
next
  case (Inr p)
  from get_product_id [OF assms Inr] have "product_id (fst (restock p n)) = pid"
    by (simp add: restock_product_id)
  with assms Inr show ?thesis
    by (cases "restock p n") (simp add: restock_product_def wf_dict_replace)
qed

lemma wf_remove_expired_products:
  assumes "wf_inventory store"
  shows "wf_inventory (fst (remove_expired_products today store))"
proof -
  from assms have "distinct (map fst store)" by (simp add: wf_inventory_def)
  from remove_expired_products_filter [OF this, of today]
  have "fst (remove_expired_products today store)
          = filter (\<lambda>(k, p). \<not> expired_now today p) store"
    by simp
  with assms show ?thesis
    by (auto simp: wf_inventory_def distinct_map_filter list_all_iff)
qed

lemma wf_load_entry:
  "wf_inventory inventory \<Longrightarrow> load_entry rt entry inventory = Some (Inr inventory') \<Longrightarrow>
   wf_inventory inventory'"
  using wf_add_product
  by (auto simp: load_entry_def split: sum.splits option.splits prod.splits) (metis fst_conv)

lemma wf_load_products:
  "wf_inventory inventory \<Longrightarrow> load_products rt entries inventory = Some (Inr inventory') \<Longrightarrow>
   wf_inventory inventory'"
proof (induction entries arbitrary: inventory)
  case Nil
  then show ?case by simp
next
  case (Cons x xs)
  then show ?case
    by (auto split: option.splits sum.splits dest: wf_load_entry)
qed

lemma wf_load_from_file:
  "load_from_file rt fs filename = Some (Inr inventory) \<Longrightarrow> wf_inventory inventory"
  using wf_load_products [OF wf_inventory_empty]
  by (auto simp: load_from_file_def load_data_def
        split: read_result.splits option.splits sum.splits)


section \<open>The ISO date parser reads back what isoformat writes\<close>

text \<open>
  For the parser of \<open>iso_runtime\<close>, the hypothesis of the round trip holds for every
  date with a year from 1 to 9999, a month from 1 to 12 and a day from 1 to 31.
\<close>

lemma digit_value_digit_char: "m < 10 \<Longrightarrow> digit_value (digit_char m) = Some m"
proof -
  assume "m < 10"
  then have "m \<in> {0, 1, 2, 3, 4, 5, 6, 7, 8, 9}" by auto
  then show ?thesis
    by (auto simp: digit_char_def digit_value_def)
qed

lemma number_of_append:
  "number_of acc (xs @ ys)
     = (case number_of acc xs of None \<Rightarrow> None | Some a \<Rightarrow> number_of a ys)"
  by (induction xs arbitrary: acc) (auto split: option.splits)

lemma number_of_dec: "number_of acc (dec n) = Some (acc * 10 ^ length (dec n) + n)"
proof (induction n arbitrary: acc rule: dec.induct)
  case (1 n)
  show ?case
  proof (cases "n < 10")
    case True
    then show ?thesis
      by (simp add: dec.simps [of n] digit_value_digit_char)
  next
    case False
    with "1.IH" [of acc] show ?thesis
      by (simp add: dec.simps [of n] number_of_append digit_value_digit_char algebra_simps)
  qed
qed

lemma number_of_zeros: "number_of 0 (replicate m (CHR ''0'') @ s) = number_of 0 s"
  by (induction m) (simp_all add: digit_value_def)

lemma number_of_zfill: "number_of 0 (zfill w (dec n)) = Some n"
  by (simp add: zfill_def number_of_zeros number_of_dec)

lemma length_dec: "0 < w \<Longrightarrow> n < 10 ^ w \<Longrightarrow> length (dec n) \<le> w"
proof (induction n arbitrary: w rule: dec.induct)
  case (1 n)
  show ?case
  proof (cases "n < 10")
    case True
    with "1.prems" show ?thesis by (simp add: dec.simps [of n])
  next
    case False
    with "1.prems" obtain v where w: "w = Suc v" "0 < v"
      by (cases w; cases "w - 1") auto
    with "1.prems" have "n div 10 < 10 ^ v"
      by (simp add: less_mult_imp_div_less mult.commute)
    with "1.IH" [OF False w(2)] have "length (dec (n div 10)) \<le> v" by simp
    with False w show ?thesis by (simp add: dec.simps [of n])
  qed
qed

lemma length_zfill: "0 < w \<Longrightarrow> n < 10 ^ w \<Longrightarrow> length (zfill w (dec n)) = w"
  using length_dec [of w n] by (simp add: zfill_def)

lemma iso_parser_isoformat:
  assumes "1 \<le> year d" "year d \<le> 9999" "1 \<le> month d" "month d \<le> 12"
    "1 \<le> day d" "day d \<le> 31"
  shows "iso_parser (PStr (isoformat d)) = Inr d"
proof -
  define a where "a = zfill 4 (dec (year d))"
  define b where "b = zfill 2 (dec (month d))"
  define c where "c = zfill 2 (dec (day d))"
  from assms have la: "length a = 4" and lb: "length b = 2" and lc: "length c = 2"
    by (simp_all add: a_def b_def c_def length_zfill)
  have s: "isoformat d = a @ CHR ''-'' # b @ CHR ''-'' # c"
    by (simp add: isoformat_def a_def b_def c_def)
  have n: "number_of 0 a = Some (year d)" "number_of 0 b = Some (month d)"
    "number_of 0 c = Some (day d)"
    by (simp_all add: a_def b_def c_def number_of_zfill)
  from la lb lc have "length (isoformat d) = 10" "isoformat d ! 4 = CHR ''-''"
    "isoformat d ! 7 = CHR ''-''" "take 4 (isoformat d) = a"
    "take 2 (drop 5 (isoformat d)) = b" "drop 8 (isoformat d) = c"
    by (simp_all add: s nth_append)
  with n assms show ?thesis
    by (simp add: iso_parser_def)
qed


section \<open>The entries outside the model\<close>

text \<open>
  \<open>load_entry\<close> is \<open>None\<close> exactly for an entry whose \<^verbatim>\<open>type\<close> names a class, whose
  other keys are the parameters of that class, and which holds something else than a
  string for a parameter annotated \<^verbatim>\<open>str\<close>.
\<close>

lemma new_product_None_iff:
  "new_product rt cls kw = None \<longleftrightarrow>
     set (map fst kw) = set (parameters cls)
     \<and> \<not> list_all (\<lambda>k. is_str (kwarg kw k)) (str_parameters cls)"
  by (cases cls) (simp_all add: new_product_def)

lemma load_entry_None_iff:
  "load_entry rt entry inventory = None \<longleftrightarrow>
     (\<exists>tag kw cls. pop_type entry = Inr (tag, kw) \<and> lookup_type tag = Inr (Some cls)
        \<and> new_product rt cls kw = None)"
proof (cases "pop_type entry")
  case (Inl e)
  then show ?thesis by (simp add: load_entry_def)
next
  case (Inr r)
  obtain tag kw where r: "r = (tag, kw)" by (cases r)
  show ?thesis
  proof (cases "lookup_type tag")
    case (Inl e)
    with Inr r show ?thesis by (simp add: load_entry_def)
  next
    case b: (Inr c)
    show ?thesis
    proof (cases c)
      case None
      with Inr r b show ?thesis by (simp add: load_entry_def)
    next
      case (Some cls)
      with Inr r b show ?thesis
        by (cases "new_product rt cls kw")
          (auto simp: load_entry_def add_product_def split: sum.splits)
    qed
  qed
qed


end
